theory Spec2Isabelle
  imports Main
begin

section \<open>The environment of the program\<close>

text \<open>
  The two classes of the repository, \<^verbatim>\<open>IO\<close> (IO.hpp, IO.cpp) and \<^verbatim>\<open>ReadEnv\<close>
  (ReadEnv.cpp), talk to the operating system through \<^verbatim>\<open>std::fstream\<close>,
  \<^verbatim>\<open>std::stringstream\<close> and \<^verbatim>\<open>std::cout\<close>. The environment is an explicit state:
  the files by path with their bytes and the two permissions the process has on them, the
  table of open descriptors and the number of descriptors the process may hold, the
  characters written to the console, and the list of the open and close requests made so
  far.
\<close>

type_synonym path = string

record disk_file =
  contents :: string
  readable :: bool
  writable :: bool

text \<open>The flags of \<^verbatim>\<open>std::ios::openmode\<close>; \<^verbatim>\<open>a | b\<close> is the union of the flag sets.\<close>

datatype openflag = ios_in | ios_out | ios_binary | ios_app | ios_ate | ios_trunc

type_synonym openmode = "openflag set"

text \<open>
  \<^verbatim>\<open>basic_filebuf::open\<close> maps the flags, \<^verbatim>\<open>binary\<close> and \<^verbatim>\<open>ate\<close> set aside, to a mode of
  \<^verbatim>\<open>fopen\<close> (ISO C++, [filebuf.members]); a combination outside the table fails.
\<close>

datatype fopen_mode = Mode_r | Mode_w | Mode_a | Mode_r_plus | Mode_w_plus | Mode_a_plus

definition fopen_mode_of :: "openmode \<Rightarrow> fopen_mode option" where
  "fopen_mode_of m =
     (if ios_app \<in> m then
        (if ios_trunc \<in> m then None
         else if ios_in \<in> m then Some Mode_a_plus
         else Some Mode_a)
      else if ios_in \<in> m then
        (if ios_out \<in> m then (if ios_trunc \<in> m then Some Mode_w_plus else Some Mode_r_plus)
         else if ios_trunc \<in> m then None
         else Some Mode_r)
      else if ios_out \<in> m then Some Mode_w
      else None)"

fun must_exist :: "fopen_mode \<Rightarrow> bool" where
  "must_exist Mode_r = True"
| "must_exist Mode_r_plus = True"
| "must_exist _ = False"

fun truncates :: "fopen_mode \<Rightarrow> bool" where
  "truncates Mode_w = True"
| "truncates Mode_w_plus = True"
| "truncates _ = False"

fun needs_read :: "fopen_mode \<Rightarrow> bool" where
  "needs_read Mode_w = False"
| "needs_read Mode_a = False"
| "needs_read _ = True"

fun needs_write :: "fopen_mode \<Rightarrow> bool" where
  "needs_write Mode_r = False"
| "needs_write _ = True"

text \<open>An open descriptor: the file it refers to, the mode it was opened with, its offset.\<close>

record open_file =
  of_path :: path
  of_mode :: openmode
  of_pos :: nat

datatype event = Open path openmode "nat option" | Close nat bool

record os =
  files :: "path \<rightharpoonup> disk_file"
  fdtable :: "open_file option list"
  fd_limit :: nat
  console :: string
  trace :: "event list"

text \<open>The lowest free descriptor, as \<^verbatim>\<open>open(2)\<close> returns it.\<close>

fun first_free :: "open_file option list \<Rightarrow> nat" where
  "first_free [] = 0"
| "first_free (None # t) = 0"
| "first_free (Some e # t) = Suc (first_free t)"

definition install :: "open_file option list \<Rightarrow> nat \<Rightarrow> open_file \<Rightarrow> open_file option list" where
  "install t n e = (if n < length t then t[n := Some e] else t @ [Some e])"

definition open_fds :: "os \<Rightarrow> nat" where
  "open_fds s = length (filter (\<lambda>x. x \<noteq> None) (fdtable s))"

text \<open>
  Opening a path. The file a mode requires must exist and grant the permissions the mode
  asks for; a writing mode without \<^verbatim>\<open>in\<close> creates a missing file and \<^verbatim>\<open>w\<close>, \<^verbatim>\<open>w+\<close>
  empty an existing one. \<open>open_target\<close> is the file as the open would leave it, when
  the path and the permissions allow the open.
\<close>

definition open_target :: "os \<Rightarrow> path \<Rightarrow> openmode \<Rightarrow> disk_file option" where
  "open_target s p m =
     (case fopen_mode_of m of
        None \<Rightarrow> None
      | Some fm \<Rightarrow>
          (case files s p of
             None \<Rightarrow>
               if must_exist fm then None
               else Some \<lparr>contents = [], readable = True, writable = True\<rparr>
           | Some f \<Rightarrow>
               if (needs_read fm \<and> \<not> readable f) \<or> (needs_write fm \<and> \<not> writable f) then None
               else Some (if truncates fm then f\<lparr>contents := []\<rparr> else f)))"

text \<open>
  The open also needs a descriptor: it fails, whatever the file, when the lowest free
  descriptor is not below the limit of the process, and then touches no file. The result
  of \<open>os_open\<close> is the new descriptor, or \<^verbatim>\<open>None\<close> for every failure. A stream opened
  with \<^verbatim>\<open>ate\<close> or \<^verbatim>\<open>app\<close> starts at the end of the file.
\<close>

definition open_grant :: "os \<Rightarrow> path \<Rightarrow> openmode \<Rightarrow> disk_file option" where
  "open_grant s p m =
     (if first_free (fdtable s) < fd_limit s then open_target s p m else None)"

definition os_open :: "path \<Rightarrow> openmode \<Rightarrow> os \<Rightarrow> nat option \<times> os" where
  "os_open p m s =
     (case open_grant s p m of
        None \<Rightarrow> (None, s\<lparr>trace := trace s @ [Open p m None]\<rparr>)
      | Some f \<Rightarrow>
          (let n = first_free (fdtable s);
               e = \<lparr>of_path = p, of_mode = m,
                    of_pos = (if ios_ate \<in> m \<or> ios_app \<in> m then length (contents f) else 0)\<rparr>
           in (Some n,
               s\<lparr>files := (files s)(p \<mapsto> f),
                 fdtable := install (fdtable s) n e,
                 trace := trace s @ [Open p m (Some n)]\<rparr>)))"

text \<open>Closing a descriptor; closing one that is not open fails and changes no table.\<close>

definition os_close :: "nat \<Rightarrow> os \<Rightarrow> bool \<times> os" where
  "os_close n s =
     (if n < length (fdtable s) \<and> fdtable s ! n \<noteq> None
      then (True, s\<lparr>fdtable := (fdtable s)[n := None], trace := trace s @ [Close n True]\<rparr>)
      else (False, s\<lparr>trace := trace s @ [Close n False]\<rparr>))"

text \<open>Reading from the offset of a descriptor to the end of its file.\<close>

definition os_read_all :: "nat \<Rightarrow> os \<Rightarrow> string \<times> os" where
  "os_read_all n s =
     (if n < length (fdtable s) then
        (case fdtable s ! n of
           None \<Rightarrow> ([], s)
         | Some e \<Rightarrow>
             if ios_in \<notin> of_mode e then ([], s)
             else
               (case files s (of_path e) of
                  None \<Rightarrow> ([], s)
                | Some f \<Rightarrow>
                    (drop (of_pos e) (contents f),
                     s\<lparr>fdtable :=
                         (fdtable s)[n := Some (e\<lparr>of_pos := max (of_pos e) (length (contents f))\<rparr>)]\<rparr>)))
      else ([], s))"

definition cout_put :: "string \<Rightarrow> os \<Rightarrow> os" where
  "cout_put cs s = s\<lparr>console := console s @ cs\<rparr>"

section \<open>The library streams\<close>

text \<open>
  A stream holds its error state and its exception mask; \<^verbatim>\<open>setstate(failbit)\<close> throws
  \<^verbatim>\<open>ios_base::failure\<close> when the mask holds \<^verbatim>\<open>failbit\<close>. A default-constructed stream
  has an empty mask. An exception that leaves a destructor ends the process.
\<close>

datatype exn = ios_failure | terminate

record fstream =
  fs_fd :: "nat option"
  fs_failbit :: bool
  fs_exceptions :: bool

definition fstream_default :: fstream where
  "fstream_default = \<lparr>fs_fd = None, fs_failbit = False, fs_exceptions = False\<rparr>"

definition is_open :: "fstream \<Rightarrow> bool" where
  "is_open f = (fs_fd f \<noteq> None)"

definition fstream_setstate :: "fstream \<Rightarrow> exn + fstream" where
  "fstream_setstate f =
     (if fs_exceptions f then Inl ios_failure else Inr (f\<lparr>fs_failbit := True\<rparr>))"

definition fstream_open :: "path \<Rightarrow> openmode \<Rightarrow> fstream \<Rightarrow> os \<Rightarrow> (exn + fstream) \<times> os" where
  "fstream_open p m f s =
     (if is_open f then (fstream_setstate f, s)
      else
        (case os_open p m s of
           (None, s') \<Rightarrow> (fstream_setstate f, s')
         | (Some n, s') \<Rightarrow> (Inr (f\<lparr>fs_fd := Some n, fs_failbit := False\<rparr>), s')))"

definition fstream_close :: "fstream \<Rightarrow> os \<Rightarrow> (exn + fstream) \<times> os" where
  "fstream_close f s =
     (case fs_fd f of
        None \<Rightarrow> (fstream_setstate f, s)
      | Some n \<Rightarrow>
          (case os_close n s of
             (True, s') \<Rightarrow> (Inr (f\<lparr>fs_fd := None\<rparr>), s')
           | (False, s') \<Rightarrow> (fstream_setstate (f\<lparr>fs_fd := None\<rparr>), s')))"

text \<open>
  The move constructor: the new stream takes the descriptor, the moved-from stream is
  left not open.
\<close>

definition fstream_move :: "fstream \<Rightarrow> fstream \<times> fstream" where
  "fstream_move f = (f, f\<lparr>fs_fd := None\<rparr>)"

text \<open>The destructor of a stream closes its file when it is open, and never throws.\<close>

definition fstream_dtor :: "fstream \<Rightarrow> os \<Rightarrow> os" where
  "fstream_dtor f s = (case fs_fd f of None \<Rightarrow> s | Some n \<Rightarrow> snd (os_close n s))"

text \<open>What \<^verbatim>\<open>rdbuf()\<close> of a file stream yields when read to its end.\<close>

definition filebuf_read_all :: "fstream \<Rightarrow> os \<Rightarrow> string \<times> os" where
  "filebuf_read_all f s = (case fs_fd f of None \<Rightarrow> ([], s) | Some n \<Rightarrow> os_read_all n s)"

record stringstream =
  ss_str :: string
  ss_failbit :: bool
  ss_exceptions :: bool

definition stringstream_default :: stringstream where
  "stringstream_default = \<lparr>ss_str = [], ss_failbit = False, ss_exceptions = False\<rparr>"

text \<open>
  \<^verbatim>\<open>buffer << f.rdbuf()\<close>: every character of the stream buffer is appended; when none
  was inserted, \<^verbatim>\<open>failbit\<close> is set on the receiving stream.
\<close>

definition insert_streambuf ::
    "stringstream \<Rightarrow> fstream \<Rightarrow> os \<Rightarrow> (exn + stringstream) \<times> os" where
  "insert_streambuf b f s =
     (case filebuf_read_all f s of
        (cs, s') \<Rightarrow>
          if cs = [] then
            (if ss_exceptions b then (Inl ios_failure, s')
             else (Inr (b\<lparr>ss_failbit := True\<rparr>), s'))
          else (Inr (b\<lparr>ss_str := ss_str b @ cs\<rparr>), s'))"

section \<open>Class IO (IO.hpp, IO.cpp)\<close>

record IO =
  file_stream :: fstream

text \<open>
  \<^verbatim>\<open>IO::IO(const std::string &file_path)\<close>: the member is default-constructed, then
  opened; when it is not open afterwards, one line goes to \<^verbatim>\<open>std::cout\<close>.
\<close>

definition IO_IO :: "path \<Rightarrow> os \<Rightarrow> (exn + IO) \<times> os" where
  "IO_IO file_path s =
     (case fstream_open file_path {ios_in, ios_out, ios_binary} fstream_default s of
        (Inl e, s1) \<Rightarrow> (Inl e, s1)
      | (Inr f, s1) \<Rightarrow>
          if \<not> is_open f
          then (Inr \<lparr>file_stream = f\<rparr>,
                cout_put (''Unable to openthe file: '' @ file_path @ [CHR 0x0A]) s1)
          else (Inr \<lparr>file_stream = f\<rparr>, s1))"

text \<open>\<^verbatim>\<open>IO::getFileStream()\<close>: \<^verbatim>\<open>return std::move(file_stream)\<close>.\<close>

definition IO_getFileStream :: "IO \<Rightarrow> fstream \<times> IO" where
  "IO_getFileStream io =
     (case fstream_move (file_stream io) of
        (f, moved_from) \<Rightarrow> (f, io\<lparr>file_stream := moved_from\<rparr>))"

text \<open>
  \<^verbatim>\<open>IO::~IO()\<close>: the body closes the stream when it is open; then the member
  \<^verbatim>\<open>file_stream\<close> is destroyed.
\<close>

definition IO_dtor :: "IO \<Rightarrow> os \<Rightarrow> (exn + unit) \<times> os" where
  "IO_dtor io s =
     (if is_open (file_stream io) then
        (case fstream_close (file_stream io) s of
           (Inl e, s1) \<Rightarrow> (Inl terminate, s1)
         | (Inr f, s1) \<Rightarrow> (Inr (), fstream_dtor f s1))
      else (Inr (), fstream_dtor (file_stream io) s))"

section \<open>Class ReadEnv (ReadEnv.cpp)\<close>

text \<open>
  \<^verbatim>\<open>ReadEnv::getenv()\<close>. The locals are destroyed in the reverse order of their
  declaration on every way out: \<^verbatim>\<open>buffer\<close>, then \<^verbatim>\<open>f_stream\<close>, then \<^verbatim>\<open>io\<close>.
\<close>

definition getenv_cleanup :: "fstream \<Rightarrow> IO \<Rightarrow> exn + string \<Rightarrow> os \<Rightarrow> (exn + string) \<times> os" where
  "getenv_cleanup f_stream io r s =
     (case IO_dtor io (fstream_dtor f_stream s) of
        (Inl e, s') \<Rightarrow> (Inl e, s')
      | (Inr u, s') \<Rightarrow> (r, s'))"

definition getenv :: "os \<Rightarrow> (exn + string) \<times> os" where
  "getenv s =
     (let env_path = ''.env'' in
      case IO_IO env_path s of
        (Inl e, s1) \<Rightarrow> (Inl e, s1)
      | (Inr io, s1) \<Rightarrow>
          (case IO_getFileStream io of
             (f_stream, io1) \<Rightarrow>
               (let buffer = stringstream_default in
                case insert_streambuf buffer f_stream s1 of
                  (Inl e, s2) \<Rightarrow> getenv_cleanup f_stream io1 (Inl e) s2
                | (Inr buffer1, s2) \<Rightarrow>
                    (let content = ss_str buffer1
                     in getenv_cleanup f_stream io1 (Inr content) s2))))"

section \<open>Example states\<close>

text \<open>
  The states of the scenarios: a file system with nothing open, room for 1024
  descriptors, nothing printed and no request made yet, and the \<^verbatim>\<open>.env\<close> files they
  place in it; and a process that holds three descriptors and may hold no more.
\<close>

definition env_line :: string where
  "env_line = ''KEY=VALUE'' @ [CHR 0x0A]"

definition os_with :: "(path \<rightharpoonup> disk_file) \<Rightarrow> os" where
  "os_with fsys = \<lparr>files = fsys, fdtable = [], fd_limit = 1024, console = [], trace = []\<rparr>"

definition std_stream :: open_file where
  "std_stream = \<lparr>of_path = ''/dev/tty'', of_mode = {ios_in, ios_out}, of_pos = 0\<rparr>"

definition os_at_limit :: "(path \<rightharpoonup> disk_file) \<Rightarrow> os" where
  "os_at_limit fsys =
     \<lparr>files = fsys, fdtable = [Some std_stream, Some std_stream, Some std_stream],
      fd_limit = 3, console = [], trace = []\<rparr>"

definition env_rw :: disk_file where
  "env_rw = \<lparr>contents = env_line, readable = True, writable = True\<rparr>"

definition env_readonly :: disk_file where
  "env_readonly = \<lparr>contents = env_line, readable = True, writable = False\<rparr>"

definition env_zero :: disk_file where
  "env_zero = \<lparr>contents = [], readable = True, writable = True\<rparr>"

definition env_zero_readonly :: disk_file where
  "env_zero_readonly = \<lparr>contents = [], readable = True, writable = False\<rparr>"

section \<open>Facts about the environment\<close>

lemmas model_defs =
  getenv_def getenv_cleanup_def IO_IO_def IO_getFileStream_def IO_dtor_def
  fstream_open_def fstream_close_def fstream_move_def fstream_dtor_def fstream_setstate_def
  fstream_default_def is_open_def filebuf_read_all_def insert_streambuf_def
  stringstream_default_def cout_put_def os_open_def os_close_def os_read_all_def
  open_grant_def open_target_def fopen_mode_of_def install_def open_fds_def Let_def

lemmas example_defs =
  os_with_def os_at_limit_def std_stream_def env_line_def env_rw_def env_readonly_def
  env_zero_def env_zero_readonly_def

lemma fopen_mode_of_rw: "fopen_mode_of {ios_in, ios_out, ios_binary} = Some Mode_r_plus"
  by (simp add: fopen_mode_of_def)

text \<open>
  For the mode of the constructor the path and the permissions allow the open exactly
  when the file exists and grants both permissions, and the file is left as it is.
\<close>

lemma open_target_rw:
  "open_target s p {ios_in, ios_out, ios_binary} =
     (case files s p of
        None \<Rightarrow> None
      | Some f \<Rightarrow> if readable f \<and> writable f then Some f else None)"
  by (simp add: open_target_def fopen_mode_of_rw split: option.splits)

lemma open_target_files: "files s' = files s \<Longrightarrow> open_target s' p m = open_target s p m"
  by (simp add: open_target_def split: option.splits)

lemma os_open_fails_iff: "fst (os_open p m s) = None \<longleftrightarrow> open_grant s p m = None"
  by (simp add: os_open_def Let_def split: option.splits)

lemma open_grant_rw_Some:
  "files s p = Some f \<Longrightarrow> fst (os_open p {ios_in, ios_out, ios_binary} s) \<noteq> None \<Longrightarrow>
   open_grant s p {ios_in, ios_out, ios_binary} = Some f"
  by (simp add: os_open_fails_iff open_grant_def open_target_rw split: if_splits)

lemma os_open_rw_exists:
  "fst (os_open p {ios_in, ios_out, ios_binary} s) \<noteq> None \<Longrightarrow>
   \<exists>f. files s p = Some f \<and> readable f \<and> writable f \<and> first_free (fdtable s) < fd_limit s"
  by (simp add: os_open_fails_iff open_grant_def open_target_rw split: if_splits option.splits)

text \<open>At the descriptor limit every open fails.\<close>

lemma os_open_at_limit: "fd_limit s \<le> first_free (fdtable s) \<Longrightarrow> fst (os_open p m s) = None"
  by (simp add: os_open_fails_iff open_grant_def)

text \<open>Whether an open succeeds depends on the files, the lowest free descriptor and the limit.\<close>

lemma os_open_fst_cong:
  "files s' = files s \<Longrightarrow> first_free (fdtable s') = first_free (fdtable s) \<Longrightarrow>
   fd_limit s' = fd_limit s \<Longrightarrow> fst (os_open p m s') = fst (os_open p m s)"
  by (simp add: os_open_def open_grant_def open_target_files [of s' s] Let_def
      split: option.splits)

lemma first_free_le: "first_free t \<le> length t"
  by (induction t rule: first_free.induct) simp_all

lemma install_length: "first_free t < length (install t (first_free t) e)"
  using first_free_le [of t] by (simp add: install_def)

lemma install_nth: "install t (first_free t) e ! first_free t = Some e"
  using first_free_le [of t] by (auto simp: install_def nth_append)

text \<open>Taking the lowest free descriptor and giving it back leaves the open ones as they were.\<close>

lemma install_release:
  "filter (\<lambda>x. x \<noteq> None) ((install t (first_free t) e)[first_free t := None]) =
   filter (\<lambda>x. x \<noteq> None) t"
proof (induction t rule: first_free.induct)
  case 1
  show ?case by (simp add: install_def)
next
  case (2 t)
  show ?case by (simp add: install_def)
next
  case (3 a t)
  then show ?case by (simp add: install_def split: if_splits)
qed

lemma first_free_release:
  "first_free ((install t (first_free t) e)[first_free t := None]) = first_free t"
proof (induction t rule: first_free.induct)
  case 1
  show ?case by (simp add: install_def)
next
  case (2 t)
  show ?case by (simp add: install_def)
next
  case (3 a t)
  then show ?case by (simp add: install_def split: if_splits)
qed

lemma os_read_all_fresh:
  assumes "files s p = Some f" and "ios_in \<in> m"
  shows "os_read_all (first_free t)
           (s\<lparr>fdtable := install t (first_free t) \<lparr>of_path = p, of_mode = m, of_pos = 0\<rparr>,
              trace := tr\<rparr>) =
         (contents f,
          s\<lparr>fdtable := (install t (first_free t) \<lparr>of_path = p, of_mode = m, of_pos = 0\<rparr>)
               [first_free t := Some \<lparr>of_path = p, of_mode = m, of_pos = length (contents f)\<rparr>],
            trace := tr\<rparr>)"
  using assms by (simp add: os_read_all_def install_length install_nth)

lemma os_close_after_read:
  "os_close (first_free t)
     (s\<lparr>fdtable := (install t (first_free t) e)[first_free t := Some e'], trace := tr\<rparr>) =
   (True, s\<lparr>fdtable := (install t (first_free t) e)[first_free t := None],
            trace := tr @ [Close (first_free t) True]\<rparr>)"
  using install_length [of t e] by (simp add: os_close_def)

lemma install_count:
  "length (filter (\<lambda>x. x \<noteq> None) (install t (first_free t) e)) =
   Suc (length (filter (\<lambda>x. x \<noteq> None) t))"
proof (induction t rule: first_free.induct)
  case 1
  show ?case by (simp add: install_def)
next
  case (2 t)
  show ?case by (simp add: install_def)
next
  case (3 a t)
  then show ?case by (simp add: install_def split: if_splits)
qed

lemma open_fds_fresh:
  "open_fds (s\<lparr>fdtable := install (fdtable s) (first_free (fdtable s)) e, trace := tr\<rparr>) =
   Suc (open_fds s)"
  using install_count [of "fdtable s" e] by (simp add: open_fds_def)

lemma open_fds_released:
  "open_fds (s\<lparr>fdtable := (install (fdtable s) (first_free (fdtable s)) e)
                           [first_free (fdtable s) := None],
               trace := tr\<rparr>) = open_fds s"
  using install_release [of "fdtable s" e] by (simp add: open_fds_def)

lemma open_fds_console:
  "open_fds (s\<lparr>console := c, trace := tr\<rparr>) = open_fds s"
  by (simp add: open_fds_def)

lemma os_close_fresh:
  "os_close (first_free t) (s\<lparr>fdtable := install t (first_free t) e, trace := tr\<rparr>) =
   (True, s\<lparr>fdtable := (install t (first_free t) e)[first_free t := None],
            trace := tr @ [Close (first_free t) True]\<rparr>)"
  by (simp add: os_close_def install_length install_nth)

section \<open>What the constructor and the loader compute\<close>

lemma IO_IO_fail:
  assumes "fst (os_open p {ios_in, ios_out, ios_binary} s) = None"
  shows "IO_IO p s =
     (Inr \<lparr>file_stream = \<lparr>fs_fd = None, fs_failbit = True, fs_exceptions = False\<rparr>\<rparr>,
      s\<lparr>console := console s @ ''Unable to openthe file: '' @ p @ [CHR 0x0A],
        trace := trace s @ [Open p {ios_in, ios_out, ios_binary} None]\<rparr>)"
proof -
  from assms have "open_grant s p {ios_in, ios_out, ios_binary} = None"
    by (simp add: os_open_fails_iff)
  then show ?thesis
    by (simp add: IO_IO_def fstream_open_def fstream_default_def is_open_def os_open_def
        fstream_setstate_def cout_put_def)
qed

lemma IO_IO_ok:
  assumes "files s p = Some f" and "fst (os_open p {ios_in, ios_out, ios_binary} s) \<noteq> None"
  shows "IO_IO p s =
     (Inr \<lparr>file_stream = \<lparr>fs_fd = Some (first_free (fdtable s)), fs_failbit = False,
                           fs_exceptions = False\<rparr>\<rparr>,
      s\<lparr>fdtable := install (fdtable s) (first_free (fdtable s))
                     \<lparr>of_path = p, of_mode = {ios_in, ios_out, ios_binary}, of_pos = 0\<rparr>,
        trace := trace s @ [Open p {ios_in, ios_out, ios_binary} (Some (first_free (fdtable s)))]\<rparr>)"
proof -
  from assms have g: "open_grant s p {ios_in, ios_out, ios_binary} = Some f"
    by (rule open_grant_rw_Some)
  from assms have "(files s)(p \<mapsto> f) = files s" by (simp add: map_upd_triv)
  with g show ?thesis
    by (simp add: IO_IO_def fstream_open_def fstream_default_def is_open_def os_open_def Let_def)
qed

lemma IO_getFileStream_eq:
  "IO_getFileStream \<lparr>file_stream = f\<rparr> = (f, \<lparr>file_stream = f\<lparr>fs_fd := None\<rparr>\<rparr>)"
  by (simp add: IO_getFileStream_def fstream_move_def)

lemma IO_dtor_not_open:
  "fs_fd (file_stream io) = None \<Longrightarrow> IO_dtor io s = (Inr (), s)"
  by (simp add: IO_dtor_def is_open_def fstream_dtor_def)

lemma getenv_cleanup_detached:
  "fs_fd (file_stream io) = None \<Longrightarrow>
   getenv_cleanup f io r s = (r, fstream_dtor f s)"
  by (simp add: getenv_cleanup_def IO_dtor_not_open)

lemma getenv_fail:
  assumes "fst (os_open ''.env'' {ios_in, ios_out, ios_binary} s) = None"
  shows "getenv s =
     (Inr [],
      s\<lparr>console := console s @ ''Unable to openthe file: '' @ ''.env'' @ [CHR 0x0A],
        trace := trace s @ [Open ''.env'' {ios_in, ios_out, ios_binary} None]\<rparr>)"
  by (simp add: getenv_def IO_IO_fail [OF assms] IO_getFileStream_eq insert_streambuf_def
      filebuf_read_all_def stringstream_default_def getenv_cleanup_detached fstream_dtor_def
      Let_def)

lemma getenv_ok:
  assumes f: "files s ''.env'' = Some f"
    and ok: "fst (os_open ''.env'' {ios_in, ios_out, ios_binary} s) \<noteq> None"
  shows "getenv s =
     (Inr (contents f),
      s\<lparr>fdtable := (install (fdtable s) (first_free (fdtable s))
                      \<lparr>of_path = ''.env'', of_mode = {ios_in, ios_out, ios_binary}, of_pos = 0\<rparr>)
                    [first_free (fdtable s) := None],
        trace := trace s @ [Open ''.env'' {ios_in, ios_out, ios_binary} (Some (first_free (fdtable s))),
                            Close (first_free (fdtable s)) True]\<rparr>)"
  by (cases "contents f = []")
    (simp_all add: getenv_def IO_IO_ok [OF f ok] IO_getFileStream_eq insert_streambuf_def
      filebuf_read_all_def stringstream_default_def getenv_cleanup_detached fstream_dtor_def
      os_read_all_fresh [OF f] os_close_after_read Let_def)

text \<open>
  What a call of the loader leaves as it was: the files, the descriptor limit and the
  lowest free descriptor.
\<close>

lemma getenv_frame:
  "files (snd (getenv s)) = files s \<and> fd_limit (snd (getenv s)) = fd_limit s \<and>
   first_free (fdtable (snd (getenv s))) = first_free (fdtable s)"
proof (cases "fst (os_open ''.env'' {ios_in, ios_out, ios_binary} s) = None")
  case True
  then show ?thesis by (simp add: getenv_fail)
next
  case False
  then obtain f where "files s ''.env'' = Some f"
    using os_open_rw_exists by blast
  with False show ?thesis by (simp add: getenv_ok first_free_release)
qed

lemma getenv_files: "files (snd (getenv s)) = files s"
  by (simp add: getenv_frame)

text \<open>
  The loader at the descriptor limit: the file may be read and written, the open fails
  all the same, and the result is the empty string with the line on the console.
\<close>

lemma getenv_at_descriptor_limit:
  "fst (getenv (os_at_limit [''.env'' \<mapsto> env_rw])) = Inr [] \<and>
   console (snd (getenv (os_at_limit [''.env'' \<mapsto> env_rw]))) =
     ''Unable to openthe file: .env'' @ [CHR 0x0A]"
  by (simp add: example_defs model_defs)

text \<open>Destroying the stream that holds the descriptor just opened closes it, once.\<close>

lemma IO_dtor_fresh:
  "IO_dtor \<lparr>file_stream = \<lparr>fs_fd = Some (first_free t), fs_failbit = b, fs_exceptions = x\<rparr>\<rparr>
     (s\<lparr>fdtable := install t (first_free t) e, trace := tr\<rparr>) =
   (Inr (), s\<lparr>fdtable := (install t (first_free t) e)[first_free t := None],
              trace := tr @ [Close (first_free t) True]\<rparr>)"
  by (simp add: IO_dtor_def is_open_def fstream_close_def os_close_fresh fstream_dtor_def)

lemma fstream_dtor_fresh:
  "fstream_dtor \<lparr>fs_fd = Some (first_free t), fs_failbit = b, fs_exceptions = x\<rparr>
     (s\<lparr>fdtable := install t (first_free t) e, trace := tr\<rparr>) =
   s\<lparr>fdtable := (install t (first_free t) e)[first_free t := None],
     trace := tr @ [Close (first_free t) True]\<rparr>"
  by (simp add: fstream_dtor_def os_close_fresh)

lemma os_open_rw_fst:
  "fst (os_open p {ios_in, ios_out, ios_binary} s) \<noteq> None \<Longrightarrow>
   fst (os_open p {ios_in, ios_out, ios_binary} s) = Some (first_free (fdtable s))"
  by (simp add: os_open_def Let_def split: option.splits)

lemma os_open_rw_denied:
  "files s p = Some f \<Longrightarrow> \<not> writable f \<Longrightarrow>
   fst (os_open p {ios_in, ios_out, ios_binary} s) = None"
  by (simp add: os_open_fails_iff open_grant_def open_target_rw)

section \<open>The claims\<close>

subsection \<open>C1: the loader returns the content of the file\<close>

text \<open>
  C1, as the specification states it: for every existing readable \<^verbatim>\<open>.env\<close> with content
  \<open>C\<close>, \<^verbatim>\<open>getenv()\<close> returns exactly \<open>C\<close>. The constructor opens the file for reading and
  writing, so this fails for a file the process may read but not write: the loader
  returns the empty string for the read-only file holding \<^verbatim>\<open>KEY=VALUE\n\<close>.
\<close>

theorem getenv_readable_counterexample:
  "files (os_with [''.env'' \<mapsto> env_readonly]) ''.env'' = Some env_readonly \<and>
   readable env_readonly \<and>
   fst (getenv (os_with [''.env'' \<mapsto> env_readonly])) = Inr [] \<and>
   fst (getenv (os_with [''.env'' \<mapsto> env_readonly])) \<noteq> Inr (contents env_readonly)"
  by (simp add: example_defs model_defs)

text \<open>
  C1, amended: for every existing \<^verbatim>\<open>.env\<close> with content \<open>C\<close> on which the open of the
  constructor, for reading and writing, succeeds, \<^verbatim>\<open>getenv()\<close> returns exactly \<open>C\<close>, byte
  for byte: nothing is trimmed or parsed, a trailing newline and a byte-order mark are
  kept.
\<close>

theorem getenv_returns_content:
  "files s ''.env'' = Some f \<Longrightarrow>
   fst (os_open ''.env'' {ios_in, ios_out, ios_binary} s) \<noteq> None \<Longrightarrow>
   fst (getenv s) = Inr (contents f)"
  by (simp add: getenv_ok)

text \<open>Scenario 1 of the specification: \<^verbatim>\<open>.env\<close> holds \<^verbatim>\<open>KEY=VALUE\n\<close>.\<close>

theorem getenv_returns_content_witness:
  "files (os_with [''.env'' \<mapsto> env_rw]) ''.env'' = Some env_rw \<and>
   fst (os_open ''.env'' {ios_in, ios_out, ios_binary} (os_with [''.env'' \<mapsto> env_rw])) = Some 0 \<and>
   fst (getenv (os_with [''.env'' \<mapsto> env_rw])) = Inr (''KEY=VALUE'' @ [CHR 0x0A])"
  using getenv_returns_content [of "os_with [''.env'' \<mapsto> env_rw]" env_rw]
  by (simp add: example_defs os_open_def open_grant_def open_target_rw)

subsection \<open>C2: the stream of a handle reads the file from its start\<close>

text \<open>
  C2, as the specification states it: for every path that exists and is readable, the
  stream retrieved from a handle on it reads the exact content of the file. For the
  read-only file at \<^verbatim>\<open>/tmp/p\<close> the handle is not open, the retrieved stream has no
  descriptor, and reading it to the end inserts nothing.
\<close>

theorem IO_stream_readable_counterexample:
  "files (os_with [''/tmp/p'' \<mapsto> env_readonly]) ''/tmp/p'' = Some env_readonly \<and>
   readable env_readonly \<and>
   contents env_readonly = ''KEY=VALUE'' @ [CHR 0x0A] \<and>
   fst (IO_IO ''/tmp/p'' (os_with [''/tmp/p'' \<mapsto> env_readonly])) =
     Inr \<lparr>file_stream = \<lparr>fs_fd = None, fs_failbit = True, fs_exceptions = False\<rparr>\<rparr> \<and>
   fst (IO_getFileStream
          \<lparr>file_stream = \<lparr>fs_fd = None, fs_failbit = True, fs_exceptions = False\<rparr>\<rparr>) =
     \<lparr>fs_fd = None, fs_failbit = True, fs_exceptions = False\<rparr> \<and>
   fst (insert_streambuf stringstream_default
          \<lparr>fs_fd = None, fs_failbit = True, fs_exceptions = False\<rparr>
          (snd (IO_IO ''/tmp/p'' (os_with [''/tmp/p'' \<mapsto> env_readonly])))) =
     Inr \<lparr>ss_str = [], ss_failbit = True, ss_exceptions = False\<rparr>"
  by (simp add: example_defs model_defs)

text \<open>
  C2, amended: for every path that exists and on which the open of the constructor, for
  reading and writing, succeeds, constructing a handle on it and retrieving its stream
  yields a stream on an open descriptor of that path at offset 0, and reading the stream
  to its end gives exactly the bytes of the file. So when content \<open>C\<close> was written to
  such a path before, the read returns \<open>C\<close>, a trailing newline included.
\<close>

theorem IO_stream_reads_file:
  "files s p = Some f \<Longrightarrow>
   fst (os_open p {ios_in, ios_out, ios_binary} s) \<noteq> None \<Longrightarrow>
   \<exists>io s1 f_stream io1 n e buffer s2.
     IO_IO p s = (Inr io, s1) \<and> IO_getFileStream io = (f_stream, io1) \<and>
     fs_fd f_stream = Some n \<and> n < length (fdtable s1) \<and> fdtable s1 ! n = Some e \<and>
     of_path e = p \<and> of_pos e = 0 \<and>
     insert_streambuf stringstream_default f_stream s1 = (Inr buffer, s2) \<and>
     ss_str buffer = contents f"
proof -
  assume f: "files s p = Some f"
    and ok: "fst (os_open p {ios_in, ios_out, ios_binary} s) \<noteq> None"
  show ?thesis
    by (cases "contents f = []")
      (simp_all add: IO_IO_ok [OF f ok] IO_getFileStream_eq install_length install_nth
        insert_streambuf_def filebuf_read_all_def stringstream_default_def
        os_read_all_fresh [OF f])
qed

text \<open>The round trip at \<^verbatim>\<open>/tmp/p\<close>, holding \<^verbatim>\<open>KEY=VALUE\n\<close>.\<close>

theorem IO_stream_reads_file_witness:
  "files (os_with [''/tmp/p'' \<mapsto> env_rw]) ''/tmp/p'' = Some env_rw \<and>
   fst (os_open ''/tmp/p'' {ios_in, ios_out, ios_binary} (os_with [''/tmp/p'' \<mapsto> env_rw])) =
     Some 0 \<and>
   fst (IO_IO ''/tmp/p'' (os_with [''/tmp/p'' \<mapsto> env_rw])) =
     Inr \<lparr>file_stream = \<lparr>fs_fd = Some 0, fs_failbit = False, fs_exceptions = False\<rparr>\<rparr> \<and>
   fdtable (snd (IO_IO ''/tmp/p'' (os_with [''/tmp/p'' \<mapsto> env_rw]))) =
     [Some \<lparr>of_path = ''/tmp/p'', of_mode = {ios_in, ios_out, ios_binary}, of_pos = 0\<rparr>] \<and>
   fst (insert_streambuf stringstream_default
          (fst (IO_getFileStream
             \<lparr>file_stream = \<lparr>fs_fd = Some 0, fs_failbit = False, fs_exceptions = False\<rparr>\<rparr>))
          (snd (IO_IO ''/tmp/p'' (os_with [''/tmp/p'' \<mapsto> env_rw])))) =
     Inr \<lparr>ss_str = ''KEY=VALUE'' @ [CHR 0x0A], ss_failbit = False, ss_exceptions = False\<rparr>"
  using IO_stream_reads_file [of "os_with [''/tmp/p'' \<mapsto> env_rw]" "''/tmp/p''" env_rw]
  by (simp add: example_defs model_defs)

subsection \<open>C3: a failed open is reported on the console only\<close>

text \<open>
  C3: for every path whose open fails, the constructor returns a handle and throws
  nothing; the handle is not open, and the console gains exactly one line, which holds
  the path.
\<close>

theorem IO_IO_open_failure:
  "fst (os_open p {ios_in, ios_out, ios_binary} s) = None \<Longrightarrow>
   \<exists>io s'. IO_IO p s = (Inr io, s') \<and> \<not> is_open (file_stream io) \<and>
     console s' = console s @ ''Unable to openthe file: '' @ p @ [CHR 0x0A]"
  by (simp add: IO_IO_fail is_open_def)

text \<open>A path that does not exist.\<close>

theorem IO_IO_open_failure_witness:
  "fst (os_open ''missing.txt'' {ios_in, ios_out, ios_binary} (os_with Map.empty)) = None \<and>
   fst (IO_IO ''missing.txt'' (os_with Map.empty)) =
     Inr \<lparr>file_stream = \<lparr>fs_fd = None, fs_failbit = True, fs_exceptions = False\<rparr>\<rparr> \<and>
   console (snd (IO_IO ''missing.txt'' (os_with Map.empty))) =
     ''Unable to openthe file: missing.txt'' @ [CHR 0x0A]"
  using IO_IO_open_failure [of "''missing.txt''" "os_with Map.empty"]
  by (simp add: example_defs model_defs)

subsection \<open>C4: a missing file and an empty file give the same result\<close>

text \<open>
  C4: when the open of \<^verbatim>\<open>.env\<close> fails, \<^verbatim>\<open>getenv()\<close> returns the empty string and the
  console gains the line naming \<^verbatim>\<open>.env\<close>; the returned value is the one an empty file
  that the process may read and write gives, so the caller cannot tell the two apart by it.
\<close>

theorem getenv_open_failure:
  "fst (os_open ''.env'' {ios_in, ios_out, ios_binary} s) = None \<Longrightarrow>
   fst (getenv s) = Inr [] \<and>
   console (snd (getenv s)) = console s @ ''Unable to openthe file: .env'' @ [CHR 0x0A] \<and>
   (files s' ''.env'' = Some f \<and> readable f \<and> writable f \<and> contents f = [] \<longrightarrow>
      fst (getenv s') = fst (getenv s))"
proof -
  assume a: "fst (os_open ''.env'' {ios_in, ios_out, ios_binary} s) = None"
  have "fst (getenv s') = Inr []" if f: "files s' ''.env'' = Some f" and z: "contents f = []"
  proof (cases "fst (os_open ''.env'' {ios_in, ios_out, ios_binary} s') = None")
    case True
    then show ?thesis by (simp add: getenv_fail)
  next
    case False
    with f z show ?thesis by (simp add: getenv_ok)
  qed
  with a show ?thesis by (simp add: getenv_fail)
qed

text \<open>Scenario 2 of the specification, beside the empty file of scenario 3.\<close>

theorem getenv_open_failure_witness:
  "fst (os_open ''.env'' {ios_in, ios_out, ios_binary} (os_with Map.empty)) = None \<and>
   files (os_with [''.env'' \<mapsto> env_zero]) ''.env'' = Some env_zero \<and>
   readable env_zero \<and> writable env_zero \<and> contents env_zero = [] \<and>
   fst (getenv (os_with Map.empty)) = Inr [] \<and>
   console (snd (getenv (os_with Map.empty))) = ''Unable to openthe file: .env'' @ [CHR 0x0A] \<and>
   fst (getenv (os_with [''.env'' \<mapsto> env_zero])) = fst (getenv (os_with Map.empty))"
  using getenv_open_failure [of "os_with Map.empty" "os_with [''.env'' \<mapsto> env_zero]" env_zero]
  by (simp add: example_defs model_defs)

subsection \<open>C5: the descriptor is closed exactly once\<close>

text \<open>
  C5: for every path and state, the constructor returns a handle. When its open failed,
  the destructor of the handle, of the retrieved stream and of the moved-from handle
  change nothing. When it succeeded, one descriptor more is open; destroying the handle
  closes that descriptor with one successful close; after \<^verbatim>\<open>getFileStream()\<close> the
  destructor of the handle changes no state at all, and destroying the retrieved stream
  is the one successful close. Either way as many descriptors are open at the end as
  before the constructor ran.
\<close>

theorem IO_released_exactly_once:
  "\<exists>io s1 f io1.
     IO_IO p s = (Inr io, s1) \<and> IO_getFileStream io = (f, io1) \<and>
     (case fs_fd (file_stream io) of
        None \<Rightarrow>
          IO_dtor io s1 = (Inr (), s1) \<and>
          fstream_dtor f s1 = s1 \<and> (\<forall>t. IO_dtor io1 t = (Inr (), t)) \<and>
          open_fds s1 = open_fds s
      | Some n \<Rightarrow>
          (\<exists>s2. IO_dtor io s1 = (Inr (), s2) \<and> trace s2 = trace s1 @ [Close n True] \<and>
                open_fds s2 = open_fds s) \<and>
          (\<forall>t. IO_dtor io1 t = (Inr (), t)) \<and>
          trace (fstream_dtor f s1) = trace s1 @ [Close n True] \<and>
          open_fds (fstream_dtor f s1) = open_fds s \<and>
          open_fds s1 = Suc (open_fds s))"
proof (cases "fst (os_open p {ios_in, ios_out, ios_binary} s) = None")
  case True
  then show ?thesis
    by (simp add: IO_IO_fail IO_getFileStream_eq IO_dtor_not_open fstream_dtor_def
        open_fds_console)
next
  case False
  then obtain g where "files s p = Some g"
    using os_open_rw_exists by blast
  with False show ?thesis
    by (simp add: IO_IO_ok IO_getFileStream_eq IO_dtor_not_open IO_dtor_fresh
        fstream_dtor_fresh open_fds_fresh open_fds_released)
qed

subsection \<open>C6: the mode of the open\<close>

text \<open>
  C6: for every path, the constructor makes one open request, for that path, with the
  flags \<^verbatim>\<open>in | out | binary\<close>: reading and writing (\<^verbatim>\<open>r+\<close>), binary.
\<close>

theorem IO_IO_open_mode:
  "trace (snd (IO_IO p s)) =
     trace s @ [Open p {ios_in, ios_out, ios_binary}
                  (fst (os_open p {ios_in, ios_out, ios_binary} s))] \<and>
   fopen_mode_of {ios_in, ios_out, ios_binary} = Some Mode_r_plus"
proof (cases "fst (os_open p {ios_in, ios_out, ios_binary} s) = None")
  case True
  then show ?thesis by (simp add: IO_IO_fail fopen_mode_of_rw)
next
  case False
  then obtain g where "files s p = Some g"
    using os_open_rw_exists by blast
  with False show ?thesis by (simp add: IO_IO_ok fopen_mode_of_rw os_open_rw_fst)
qed

subsection \<open>C7: the empty file\<close>




subsection \<open>C8: loading twice\<close>

text \<open>
  C8: two calls of \<^verbatim>\<open>getenv()\<close> in succession, the second in the state the first one
  leaves, return equal strings.
\<close>

theorem getenv_idempotent: "fst (getenv (snd (getenv s))) = fst (getenv s)"
proof -
  have same: "fst (os_open ''.env'' {ios_in, ios_out, ios_binary} (snd (getenv s))) =
              fst (os_open ''.env'' {ios_in, ios_out, ios_binary} s)"
    by (rule os_open_fst_cong) (simp_all add: getenv_frame)
  show ?thesis
  proof (cases "fst (os_open ''.env'' {ios_in, ios_out, ios_binary} s) = None")
    case True
    with same show ?thesis by (simp add: getenv_fail)
  next
    case False
    then obtain f where f: "files s ''.env'' = Some f"
      using os_open_rw_exists by blast
    then have "files (snd (getenv s)) ''.env'' = Some f" by (simp add: getenv_files)
    moreover from False same
    have "fst (os_open ''.env'' {ios_in, ios_out, ios_binary} (snd (getenv s))) \<noteq> None"
      by simp
    ultimately have "fst (getenv (snd (getenv s))) = Inr (contents f)"
      by (simp add: getenv_ok)
    with f False show ?thesis by (simp add: getenv_ok)
  qed
qed

subsection \<open>C9: the loader writes nothing\<close>

text \<open>
  C9: \<^verbatim>\<open>getenv()\<close> never modifies \<^verbatim>\<open>.env\<close>: after every call each file, \<^verbatim>\<open>.env\<close> among
  them, has the content and the permissions it had before, although the stream was
  opened with \<^verbatim>\<open>out\<close>.
\<close>

theorem getenv_leaves_files: "files (snd (getenv s)) = files s"
  by (simp add: getenv_frame)

subsection \<open>C10: a file that may be read but not written\<close>

text \<open>
  C10: when \<^verbatim>\<open>.env\<close> exists and the process may read it but not write it, the
  constructor leaves the handle not open and prints the line, and \<^verbatim>\<open>getenv()\<close> returns
  the empty string whatever the file holds.
\<close>

theorem getenv_readonly_file:
  "files s ''.env'' = Some f \<Longrightarrow> readable f \<Longrightarrow> \<not> writable f \<Longrightarrow>
   (\<exists>io s1. IO_IO ''.env'' s = (Inr io, s1) \<and> \<not> is_open (file_stream io) \<and>
      console s1 = console s @ ''Unable to openthe file: .env'' @ [CHR 0x0A]) \<and>
   fst (getenv s) = Inr [] \<and>
   console (snd (getenv s)) = console s @ ''Unable to openthe file: .env'' @ [CHR 0x0A]"
proof -
  assume "files s ''.env'' = Some f" and "readable f" and "\<not> writable f"
  then have "fst (os_open ''.env'' {ios_in, ios_out, ios_binary} s) = None"
    by (simp add: os_open_rw_denied)
  then show ?thesis by (simp add: getenv_fail IO_IO_fail is_open_def)
qed

text \<open>The read-only file holding \<^verbatim>\<open>KEY=VALUE\n\<close>.\<close>

theorem getenv_readonly_file_witness:
  "files (os_with [''.env'' \<mapsto> env_readonly]) ''.env'' = Some env_readonly \<and>
   readable env_readonly \<and> \<not> writable env_readonly \<and>
   contents env_readonly = ''KEY=VALUE'' @ [CHR 0x0A] \<and>
   fst (IO_IO ''.env'' (os_with [''.env'' \<mapsto> env_readonly])) =
     Inr \<lparr>file_stream = \<lparr>fs_fd = None, fs_failbit = True, fs_exceptions = False\<rparr>\<rparr> \<and>
   fst (getenv (os_with [''.env'' \<mapsto> env_readonly])) = Inr [] \<and>
   console (snd (getenv (os_with [''.env'' \<mapsto> env_readonly]))) =
     ''Unable to openthe file: .env'' @ [CHR 0x0A]"
  using getenv_readonly_file [of "os_with [''.env'' \<mapsto> env_readonly]" env_readonly]
  by (simp add: example_defs model_defs)

end
